theory Spec2Isabelle
  imports Main
begin

section \<open>Values of the program\<close>

text \<open>
  The program is \<^verbatim>\<open>src/python/main.py\<close>: it asks an OAuth2 endpoint for a bearer
  token, posts a fixed request to a data endpoint, and hands one entry of the reply to
  pandas to be written as a spreadsheet.

  A parsed JSON document is what \<^verbatim>\<open>response.json()\<close> returns: \<open>None\<close>, a bool, a
  number, a \<open>str\<close>, a \<open>list\<close> or a \<open>dict\<close>. A dict is kept as the list of its items in
  insertion order; a lookup \<^verbatim>\<open>d[k]\<close> or \<^verbatim>\<open>d.get(k)\<close> is \<open>map_of\<close> on that list (the
  keys of a Python dict are distinct). Numbers are integers here; no claim depends on
  a fractional value. \<open>JNull\<close> is Python's \<open>None\<close>.
\<close>

datatype json =
    JNull
  | JBool bool
  | JInt int
  | JStr string
  | JArr "json list"
  | JObj "(string \<times> json) list"

text \<open>The name Python prints for the type of a value, as in its error messages.\<close>

fun py_type_name :: "json \<Rightarrow> string" where
  "py_type_name JNull = ''NoneType''"
| "py_type_name (JBool _) = ''bool''"
| "py_type_name (JInt _) = ''int''"
| "py_type_name (JStr _) = ''str''"
| "py_type_name (JArr _) = ''list''"
| "py_type_name (JObj _) = ''dict''"

text \<open>
  The exceptions that can leave \<open>main\<close> uncaught. \<open>AttributeError t a\<close>: a value of type
  \<open>t\<close> has no attribute \<open>a\<close>; \<open>TypeError t\<close>: a value of type \<open>t\<close> is not iterable;
  \<open>KeyError k\<close>: the dict has no key \<open>k\<close>. Exceptions that the program catches appear
  only as the message it prints for them.
\<close>

datatype pyexc =
    KeyError string
  | AttributeError string string
  | TypeError string

text \<open>
  How a call ends when it does not return: \<^verbatim>\<open>sys.exit(n)\<close>, or an exception nobody
  catches (the interpreter prints the traceback and the process ends with status 1).
\<close>

datatype abort = SysExit nat | Uncaught pyexc

fun exit_status :: "abort + unit \<Rightarrow> nat" where
  "exit_status (Inr _) = 0"
| "exit_status (Inl (SysExit n)) = n"
| "exit_status (Inl (Uncaught _)) = 1"

subsection \<open>HTTP requests and replies\<close>

text \<open>
  The arguments of one \<^verbatim>\<open>requests.post\<close> call. The header the program builds as
  \<^verbatim>\<open>f'Bearer {token}'\<close> is kept as \<open>Bearer token\<close>, the token being whatever value the
  auth reply held.
\<close>

datatype header_value = Literal string | Bearer json

datatype payload = FormData "(string \<times> string) list" | JsonBody json

record request =
  req_url :: string
  req_headers :: "(string \<times> header_value) list"
  req_payload :: payload
  req_auth :: "(string \<times> string) option"
  req_timeout :: nat

text \<open>
  A reply as the program reads it: \<open>resp_json\<close> is the result of \<^verbatim>\<open>response.json()\<close>,
  \<open>Inl msg\<close> when the body is not JSON (requests raises its \<open>JSONDecodeError\<close>, a
  \<open>RequestException\<close>, with message \<open>msg\<close>).
\<close>

record response =
  status_code :: nat
  reason :: string
  resp_url :: string
  resp_text :: string
  resp_headers :: "(string \<times> string) list"
  resp_json :: "string + json"

text \<open>
  What \<^verbatim>\<open>requests.post\<close> does: it returns a reply, or raises a \<open>RequestException\<close>
  (no connection, timeout, bad URL), kept with the text \<open>str(e)\<close> the program prints.
\<close>

datatype http_outcome = RequestException string | Reply response

subsection \<open>The table pandas builds and writes\<close>

datatype cell = Blank | Val json

record frame =
  frame_columns :: "json list"
  frame_rows :: "cell list list"

text \<open>
  A section name of the parsed configuration file: a string, or the marker object that
  \<open>configparser\<close> uses for the keys before the first section header.
\<close>

datatype section_name = UNNAMED_SECTION | Section string

subsection \<open>The surroundings of one run\<close>

text \<open>
  Everything the run reads from outside. The four settings are what \<^verbatim>\<open>os.getenv\<close>
  returned at import time. \<open>requests_post\<close> is the network: the outcome of each
  request. \<open>config_sections\<close> is the parsed \<^verbatim>\<open>.env\<close> file, each section with the items
  \<^verbatim>\<open>config[cat].items()\<close> yields (the interpreter is one whose \<open>ConfigParser\<close> accepts
  \<open>allow_unnamed_section\<close>). \<open>frame_of_other\<close> is what the \<open>DataFrame\<close> constructor does
  with a list that is not a list of dicts, and \<open>excel_write\<close> whether writing a sheet to
  a file name fails: both return the message of the exception raised, if any.
\<close>

record environment =
  CLIENT_ID :: "string option"
  CLIENT_SECRET :: "string option"
  AUTH_URL :: "string option"
  DATA_URL :: "string option"
  requests_post :: "request \<Rightarrow> http_outcome"
  config_sections :: "(section_name \<times> (string \<times> string) list) list"
  frame_of_other :: "json list \<Rightarrow> string + frame"
  excel_write :: "string \<Rightarrow> cell list list \<Rightarrow> string option"

text \<open>
  What the run does to the outside, in order: a line printed, the line that prints the
  list \<^verbatim>\<open>config.sections()\<close>, a request sent, a spreadsheet file written.
\<close>

datatype event =
    Print string
  | PrintSections "section_name list"
  | HttpPost request
  | WriteFile string "cell list list"

section \<open>Formatting\<close>

definition digit :: "nat \<Rightarrow> char" where
  "digit d = ''0123456789'' ! d"

fun string_of_nat :: "nat \<Rightarrow> string" where
  "string_of_nat n =
     (if n < 10 then [digit n] else string_of_nat (n div 10) @ [digit (n mod 10)])"

declare string_of_nat.simps [simp del]

fun string_of_int :: "int \<Rightarrow> string" where
  "string_of_int i = (if i < 0 then CHR ''-'' # string_of_nat (nat (- i)) else string_of_nat (nat i))"

fun str_section :: "section_name \<Rightarrow> string" where
  "str_section UNNAMED_SECTION = ''<UNNAMED_SECTION>''"
| "str_section (Section s) = s"

section \<open>get_bearer_token\<close>

text \<open>
  \<^verbatim>\<open>Response.raise_for_status\<close> of the requests library: it raises \<open>HTTPError\<close> (a
  \<open>RequestException\<close>) for a status from 400 to 599 and returns otherwise. The result is
  the message of the exception raised.
\<close>

definition raise_for_status :: "response \<Rightarrow> string option" where
  "raise_for_status r =
     (if 400 \<le> status_code r \<and> status_code r < 500
      then Some (string_of_nat (status_code r) @ '' Client Error: '' @ reason r @
                 '' for url: '' @ resp_url r)
      else if 500 \<le> status_code r \<and> status_code r < 600
      then Some (string_of_nat (status_code r) @ '' Server Error: '' @ reason r @
                 '' for url: '' @ resp_url r)
      else None)"

text \<open>The method call \<^verbatim>\<open>token_data.get(key)\<close>: only a dict has the method.\<close>

fun py_get :: "json \<Rightarrow> string \<Rightarrow> pyexc + json" where
  "py_get (JObj d) key = Inr (case map_of d key of None \<Rightarrow> JNull | Some v \<Rightarrow> v)"
| "py_get other key = Inl (AttributeError (py_type_name other) ''get'')"

text \<open>The request of lines 33 to 50.\<close>

definition token_request :: "string \<Rightarrow> string \<Rightarrow> string \<Rightarrow> request" where
  "token_request client_id client_secret auth_url =
     \<lparr>req_url = auth_url,
      req_headers = [(''Content-Type'', Literal ''application/x-www-form-urlencoded'')],
      req_payload = FormData [(''grant_type'', ''client_credentials'')],
      req_auth = Some (client_id, client_secret),
      req_timeout = 10\<rparr>"

definition get_bearer_token ::
  "string \<Rightarrow> string \<Rightarrow> string \<Rightarrow> environment \<Rightarrow> (abort + json) \<times> event list" where
  "get_bearer_token client_id client_secret auth_url env =
     (let req = token_request client_id client_secret auth_url in
      case requests_post env req of
        RequestException e \<Rightarrow>
          (Inl (SysExit 1), [HttpPost req, Print (''Error obtaining token: '' @ e)])
      | Reply response \<Rightarrow>
          (case raise_for_status response of
             Some e \<Rightarrow>
               (Inl (SysExit 1), [HttpPost req, Print (''Error obtaining token: '' @ e)])
           | None \<Rightarrow>
               (case resp_json response of
                  Inl e \<Rightarrow>
                    (Inl (SysExit 1), [HttpPost req, Print (''Error obtaining token: '' @ e)])
                | Inr token_data \<Rightarrow>
                    (case py_get token_data ''access_token'' of
                       Inl exc \<Rightarrow> (Inl (Uncaught exc), [HttpPost req])
                     | Inr token \<Rightarrow> (Inr token, [HttpPost req])))))"

section \<open>fetch_api_data\<close>

text \<open>The request of lines 69 to 79.\<close>

definition data_request :: "string \<Rightarrow> json \<Rightarrow> request" where
  "data_request data_url token =
     \<lparr>req_url = data_url,
      req_headers = [(''Authorization'', Bearer token),
                     (''Content-Type'', Literal ''application/json''),
                     (''Accept'', Literal ''application/json'')],
      req_payload = JsonBody (JObj [(''terms_start'', JStr ''21''), (''terms_end'', JStr ''36'')]),
      req_auth = None,
      req_timeout = 10\<rparr>"

text \<open>The lines printed for a reply whose status is not 200 (lines 81 to 84).\<close>

definition status_report :: "response \<Rightarrow> event list" where
  "status_report r =
     Print (''Error: Received status code '' @ string_of_nat (status_code r)) #
     Print (''Response: '' @ resp_text r) #
     map (\<lambda>(key, value). Print (key @ '': '' @ value)) (resp_headers r)"

definition fetch_api_data :: "string \<Rightarrow> json \<Rightarrow> environment \<Rightarrow> (abort + json) \<times> event list" where
  "fetch_api_data data_url token env =
     (let req = data_request data_url token in
      case requests_post env req of
        RequestException e \<Rightarrow>
          (Inl (SysExit 1), [HttpPost req, Print (''Error fetching data: '' @ e)])
      | Reply response \<Rightarrow>
          (let report = (if status_code response \<noteq> 200 then status_report response else []) in
           case (if status_code response \<noteq> 200 then raise_for_status response else None) of
             Some e \<Rightarrow>
               (Inl (SysExit 1), HttpPost req # report @ [Print (''Error fetching data: '' @ e)])
           | None \<Rightarrow>
               (case resp_json response of
                  Inl e \<Rightarrow>
                    (Inl (SysExit 1), HttpPost req # report @ [Print (''Error fetching data: '' @ e)])
                | Inr api_data \<Rightarrow> (Inr api_data, HttpPost req # report))))"

section \<open>save_to_excel\<close>

text \<open>
  The test \<^verbatim>\<open>key in data and isinstance(data[key], list)\<close> of lines 106 and 108, with
  the list it finds.
\<close>

definition list_under :: "(string \<times> json) list \<Rightarrow> string \<Rightarrow> json list option" where
  "list_under d key = (case map_of d key of Some (JArr xs) \<Rightarrow> Some xs | _ \<Rightarrow> None)"

text \<open>
  Lines 101 to 111: the value of \<open>records\<close> after the normalisation. It starts as the
  empty list and stays so when \<open>data\<close> is neither a list nor a dict.
\<close>

fun records_of :: "json \<Rightarrow> json list" where
  "records_of (JArr xs) = xs"
| "records_of (JObj d) =
     (case list_under d ''data'' of
        Some xs \<Rightarrow> xs
      | None \<Rightarrow>
          (case list_under d ''results'' of
             Some ys \<Rightarrow> ys
           | None \<Rightarrow> [JObj d]))"
| "records_of other = []"

fun is_dict :: "json \<Rightarrow> bool" where
  "is_dict (JObj _) = True"
| "is_dict _ = False"

fun is_list :: "json \<Rightarrow> bool" where
  "is_list (JArr _) = True"
| "is_list _ = False"

fun dict_items :: "json \<Rightarrow> (string \<times> json) list" where
  "dict_items (JObj d) = d"
| "dict_items _ = []"

text \<open>The keys met so far, then the keys of a further list, each at its first place.\<close>

fun first_seen :: "string list \<Rightarrow> string list \<Rightarrow> string list" where
  "first_seen seen [] = seen"
| "first_seen seen (k # ks) = first_seen (if k \<in> set seen then seen else seen @ [k]) ks"

definition union_keys :: "json list \<Rightarrow> string list" where
  "union_keys records = first_seen [] (concat (map (\<lambda>r. map fst (dict_items r)) records))"

definition row_of :: "string list \<Rightarrow> json \<Rightarrow> cell list" where
  "row_of cols r = map (\<lambda>c. case map_of (dict_items r) c of None \<Rightarrow> Blank | Some v \<Rightarrow> Val v) cols"

text \<open>
  Modelled from the spec: the \<open>DataFrame\<close> constructor of pandas, a library the
  repository calls and does not contain. For a list of dicts, each record becomes one
  row, the keys across the records are unioned into the columns (in the order in which
  they first appear), and a column that a record lacks is left blank. What the
  constructor does with any other list is the parameter \<open>frame_of_other\<close>.
\<close>

definition DataFrame :: "environment \<Rightarrow> json list \<Rightarrow> string + frame" where
  "DataFrame env records =
     (if list_all is_dict records
      then Inr \<lparr>frame_columns = map JStr (union_keys records),
                frame_rows = map (row_of (union_keys records)) records\<rparr>
      else frame_of_other env records)"

text \<open>
  Modelled from the spec: \<^verbatim>\<open>df.to_excel(filename, index=index)\<close> of pandas. It writes
  one sheet: a header row with the column labels, then the rows; with \<open>index\<close> set, a
  first column holds the row numbers. Whether the write fails is the parameter
  \<open>excel_write\<close>.
\<close>

definition sheet_of :: "frame \<Rightarrow> bool \<Rightarrow> cell list list" where
  "sheet_of df index =
     (if index
      then (Blank # map Val (frame_columns df)) #
           map (\<lambda>(i, row). Val (JInt (int i)) # row)
               (zip [0 ..< length (frame_rows df)] (frame_rows df))
      else map Val (frame_columns df) # frame_rows df)"

definition to_excel :: "environment \<Rightarrow> frame \<Rightarrow> string \<Rightarrow> bool \<Rightarrow> (string + unit) \<times> event list" where
  "to_excel env df filename index =
     (case excel_write env filename (sheet_of df index) of
        Some e \<Rightarrow> (Inl e, [])
      | None \<Rightarrow> (Inr (), [WriteFile filename (sheet_of df index)]))"

text \<open>
  The body of the \<^verbatim>\<open>try\<close> of \<open>save_to_excel\<close> (lines 97 to 122): \<open>Inl e\<close> when an
  exception with message \<open>e\<close> leaves it, with what was done before.
\<close>

definition save_to_excel_try :: "json \<Rightarrow> string \<Rightarrow> environment \<Rightarrow> (string + unit) \<times> event list" where
  "save_to_excel_try data filename env =
     (let records = records_of data in
      if records = [] then (Inr (), [Print ''No records found to save.''])
      else
        (case DataFrame env records of
           Inl e \<Rightarrow> (Inl e, [])
         | Inr df \<Rightarrow>
             (case to_excel env df filename False of
                (Inl e, evs) \<Rightarrow> (Inl e, evs)
              | (Inr u, evs) \<Rightarrow>
                  (Inr (), evs @ [Print (''Success! Data saved to '' @ filename)]))))"

text \<open>
  \<open>save_to_excel\<close> with its handler (lines 124 and 125): it always returns, so its
  result is only what it did.
\<close>

definition save_to_excel :: "json \<Rightarrow> string \<Rightarrow> environment \<Rightarrow> event list" where
  "save_to_excel data filename env =
     (case save_to_excel_try data filename env of
        (Inl e, evs) \<Rightarrow> evs @ [Print (''Error saving to Excel: '' @ e)]
      | (Inr u, evs) \<Rightarrow> evs)"

section \<open>main\<close>

text \<open>Truth of a setting in \<^verbatim>\<open>all([...])\<close>: neither \<open>None\<close> nor the empty string.\<close>

definition truthy :: "string option \<Rightarrow> bool" where
  "truthy v = (case v of None \<Rightarrow> False | Some s \<Rightarrow> s \<noteq> [])"

text \<open>The loop of lines 146 to 154 over the sections of the configuration file.\<close>

definition not_a_string_warning :: string where
  "not_a_string_warning =
     ''Warning: Category '' @ [CHR 0x27] @ ''type(cat)=<class '' @ [CHR 0x27] @
     ''configparser._UnnamedSection'' @ [CHR 0x27] @ ''>'' @ [CHR 0x27] @
     '' is not a string. Skipping.''"

fun categories_loop ::
  "nat \<Rightarrow> int \<Rightarrow> (section_name \<times> (string \<times> string) list) list \<Rightarrow> event list" where
  "categories_loop number len_categories [] = []"
| "categories_loop number len_categories ((cat, items) # rest) =
     Print (''2.'' @ string_of_nat number @ ''/'' @ string_of_int len_categories @
            '' Fetching data for '' @ str_section cat @ ''...'') #
     (if cat = Section ''DEFAULT'' then []
      else
        map (\<lambda>(key, val). Print (''Installing '' @ key @ '' '' @ val @ '' for category '' @
                                  str_section cat @ ''...'')) items @
        (if cat = UNNAMED_SECTION then [Print not_a_string_warning] else [])) @
     categories_loop (Suc number) len_categories rest"

text \<open>Whether \<^verbatim>\<open>for sub_value in value\<close> can start: a str, a list or a dict.\<close>

fun iterable :: "json \<Rightarrow> bool" where
  "iterable (JStr _) = True"
| "iterable (JArr _) = True"
| "iterable (JObj _) = True"
| "iterable _ = False"

text \<open>
  The loop of lines 159 to 166 over the items of the reply: it does nothing but
  iterate over the value under \<open>record\<close>, which raises when that value is a number,
  a bool or \<open>None\<close>.
\<close>

fun items_loop :: "(string \<times> json) list \<Rightarrow> pyexc option" where
  "items_loop [] = None"
| "items_loop ((key, value) # rest) =
     (if key = ''record'' \<and> \<not> iterable value then Some (TypeError (py_type_name value))
      else items_loop rest)"

text \<open>
  Lines 159 to 168: \<^verbatim>\<open>api_data.items()\<close> needs a dict, the loop runs, and then
  \<^verbatim>\<open>api_data['record']\<close> is read.
\<close>

fun my_records_of :: "json \<Rightarrow> pyexc + json" where
  "my_records_of (JObj d) =
     (case items_loop d of
        Some exc \<Rightarrow> Inl exc
      | None \<Rightarrow>
          (case map_of d ''record'' of
             None \<Rightarrow> Inl (KeyError ''record'')
           | Some value \<Rightarrow> Inr value))"
| "my_records_of other = Inl (AttributeError (py_type_name other) ''items'')"

definition main :: "environment \<Rightarrow> (abort + unit) \<times> event list" where
  "main env =
     (if \<not> (truthy (CLIENT_ID env) \<and> truthy (CLIENT_SECRET env) \<and>
             truthy (AUTH_URL env) \<and> truthy (DATA_URL env))
      then (Inl (SysExit 1),
            [Print ''Error: Missing environment variables. Please check your .env file.''])
      else
        (case get_bearer_token (the (CLIENT_ID env)) (the (CLIENT_SECRET env))
                (the (AUTH_URL env)) env of
           (Inl a, evs1) \<Rightarrow> (Inl a, Print ''1. Authenticating...'' # evs1)
         | (Inr token, evs1) \<Rightarrow>
             (let categories = config_sections env;
                  len_categories = int (length categories) - 1;
                  so_far = Print ''1. Authenticating...'' # evs1 @
                           [Print ''   Token received.'',
                            Print ''2. Fetching data...'',
                            Print ''   Configuration loaded.'',
                            PrintSections (map fst categories)]
              in
                if len_categories > 0
                then (Inr (), so_far @ categories_loop 0 len_categories categories)
                else
                  (case fetch_api_data (the (DATA_URL env)) token env of
                     (Inl a, evs2) \<Rightarrow> (Inl a, so_far @ evs2)
                   | (Inr api_data, evs2) \<Rightarrow>
                       (case my_records_of api_data of
                          Inl exc \<Rightarrow>
                            (Inl (Uncaught exc), so_far @ evs2 @ [Print ''   Data received.''])
                        | Inr my_records \<Rightarrow>
                            (Inr (),
                             so_far @ evs2 @
                             [Print ''   Data received.'', Print ''3. Saving to Excel...''] @
                             save_to_excel my_records ''api_data.xlsx'' env))))))"

text \<open>What the run did, read off its events.\<close>

fun posts :: "event list \<Rightarrow> request list" where
  "posts [] = []"
| "posts (HttpPost r # evs) = r # posts evs"
| "posts (_ # evs) = posts evs"

fun files_written :: "event list \<Rightarrow> (string \<times> cell list list) list" where
  "files_written [] = []"
| "files_written (WriteFile name sheet # evs) = (name, sheet) # files_written evs"
| "files_written (_ # evs) = files_written evs"

text \<open>
  The run has come to the data request: the four settings are there, the token call
  returned \<open>token\<close> after doing \<open>evs1\<close>, and the configuration file has at most one
  section (the test of line 145 fails).
\<close>

definition reaches_fetch :: "environment \<Rightarrow> json \<Rightarrow> event list \<Rightarrow> bool" where
  "reaches_fetch env token evs1 \<longleftrightarrow>
     truthy (CLIENT_ID env) \<and> truthy (CLIENT_SECRET env) \<and>
     truthy (AUTH_URL env) \<and> truthy (DATA_URL env) \<and>
     get_bearer_token (the (CLIENT_ID env)) (the (CLIENT_SECRET env)) (the (AUTH_URL env)) env
       = (Inr token, evs1) \<and>
     \<not> int (length (config_sections env)) - 1 > 0"

text \<open>What \<open>main\<close> has done when it calls \<open>fetch_api_data\<close>.\<close>

definition so_far :: "environment \<Rightarrow> event list \<Rightarrow> event list" where
  "so_far env evs1 =
     Print ''1. Authenticating...'' # evs1 @
     [Print ''   Token received.'',
      Print ''2. Fetching data...'',
      Print ''   Configuration loaded.'',
      PrintSections (map fst (config_sections env))]"

text \<open>
  The token call fails: \<^verbatim>\<open>requests.post\<close> raised (no connection, timeout), or the
  reply has a status from 400 to 599, for which \<open>raise_for_status\<close> raises.
\<close>

definition token_call_fails :: "http_outcome \<Rightarrow> bool" where
  "token_call_fails out =
     (case out of
        RequestException e \<Rightarrow> True
      | Reply r \<Rightarrow> 400 \<le> status_code r \<and> status_code r < 600)"

section \<open>The resolution policy as the specification words it\<close>

text \<open>
  The four steps of the specification's shape resolution, first match winning: a
  sequence is used directly; else a mapping with key \<open>data\<close> whose value is a sequence
  gives that sequence; else one with key \<open>results\<close> whose value is a sequence gives
  that sequence; else, in every case that the first three steps leave, the whole value
  is wrapped as a one-element sequence.
\<close>

definition spec_policy :: "json \<Rightarrow> json list" where
  "spec_policy v =
     (case v of
        JArr xs \<Rightarrow> xs
      | _ \<Rightarrow>
          (case list_under (dict_items v) ''data'' of
             Some xs \<Rightarrow> xs
           | None \<Rightarrow>
               (case list_under (dict_items v) ''results'' of
                  Some ys \<Rightarrow> ys
                | None \<Rightarrow> [v])))"

section \<open>Example runs\<close>

text \<open>
  Surroundings for the examples: the settings are present, the network answers the
  token URL with one outcome and every other URL with another, there is no
  configuration file, and \<open>writer\<close> says whether a write fails.
\<close>

definition example_env ::
  "http_outcome \<Rightarrow> http_outcome \<Rightarrow> (string \<Rightarrow> cell list list \<Rightarrow> string option) \<Rightarrow> environment" where
  "example_env auth_outcome data_outcome writer =
     \<lparr>CLIENT_ID = Some ''my-id'',
      CLIENT_SECRET = Some ''my-secret'',
      AUTH_URL = Some ''https://idp.example/token'',
      DATA_URL = Some ''https://api.example/export'',
      requests_post = (\<lambda>req. if req_url req = ''https://idp.example/token''
                              then auth_outcome else data_outcome),
      config_sections = [],
      frame_of_other = (\<lambda>records. Inl ''DataFrame constructor not properly called!''),
      excel_write = writer\<rparr>"

definition json_reply :: "nat \<Rightarrow> string \<Rightarrow> string \<Rightarrow> json \<Rightarrow> response" where
  "json_reply code why url value =
     \<lparr>status_code = code, reason = why, resp_url = url, resp_text = ''(the JSON text)'',
      resp_headers = [(''Content-Type'', ''application/json'')], resp_json = Inr value\<rparr>"

text \<open>A token reply with body \<^verbatim>\<open>{"access_token":"T"}\<close> and a data reply.\<close>

definition token_reply :: "nat \<Rightarrow> string \<Rightarrow> http_outcome" where
  "token_reply code why =
     Reply (json_reply code why ''https://idp.example/token'' (JObj [(''access_token'', JStr ''T'')]))"

definition data_reply :: "nat \<Rightarrow> string \<Rightarrow> json \<Rightarrow> http_outcome" where
  "data_reply code why value = Reply (json_reply code why ''https://api.example/export'' value)"

definition writes_ok :: "string \<Rightarrow> cell list list \<Rightarrow> string option" where
  "writes_ok filename sheet = None"

definition writes_fail :: "string \<Rightarrow> cell list list \<Rightarrow> string option" where
  "writes_fail filename sheet = Some ''[Errno 13] Permission denied''"

text \<open>The reply \<^verbatim>\<open>{"record":[{"a":1},{"a":2,"b":3}]}\<close>.\<close>

definition two_records :: json where
  "two_records =
     JObj [(''record'', JArr [JObj [(''a'', JInt 1)], JObj [(''a'', JInt 2), (''b'', JInt 3)]])]"

section \<open>Facts about the events of a call\<close>

lemma files_written_append: "files_written (xs @ ys) = files_written xs @ files_written ys"
  by (induction xs rule: files_written.induct) simp_all

lemma posts_append: "posts (xs @ ys) = posts xs @ posts ys"
  by (induction xs rule: posts.induct) simp_all

lemma files_written_prints: "files_written (map (\<lambda>(key, value). Print (f key value)) hs) = []"
  by (induction hs) auto

lemma posts_prints: "posts (map (\<lambda>(key, value). Print (f key value)) hs) = []"
  by (induction hs) auto

lemma files_written_status_report: "files_written (status_report r) = []"
  by (simp add: status_report_def files_written_prints)

lemma posts_status_report: "posts (status_report r) = []"
  by (simp add: status_report_def posts_prints)

lemma files_written_get_bearer_token:
  "files_written (snd (get_bearer_token client_id client_secret auth_url env)) = []"
  by (simp add: get_bearer_token_def Let_def split: http_outcome.split option.split sum.split)

lemma files_written_fetch_api_data:
  "files_written (snd (fetch_api_data data_url token env)) = []"
  by (simp add: fetch_api_data_def Let_def files_written_append files_written_status_report
      split: http_outcome.split option.split sum.split)

text \<open>Each of the two calls sends exactly one request, whatever the outcome.\<close>

lemma posts_get_bearer_token:
  "posts (snd (get_bearer_token client_id client_secret auth_url env)) =
     [token_request client_id client_secret auth_url]"
  by (simp add: get_bearer_token_def Let_def split: http_outcome.split option.split sum.split)

lemma posts_fetch_api_data:
  "posts (snd (fetch_api_data data_url token env)) = [data_request data_url token]"
  by (simp add: fetch_api_data_def Let_def posts_append posts_status_report
      split: http_outcome.split option.split sum.split)

lemma files_written_so_far: "files_written (so_far env evs1) = files_written evs1"
  by (simp add: so_far_def files_written_append)

lemma reaches_fetch_no_files: "reaches_fetch env token evs1 \<Longrightarrow> files_written evs1 = []"
  using files_written_get_bearer_token
    [of "the (CLIENT_ID env)" "the (CLIENT_SECRET env)" "the (AUTH_URL env)" env]
  by (simp add: reaches_fetch_def)

text \<open>From the data request on, \<open>main\<close> is lines 156 to 171.\<close>

lemma main_after_token:
  assumes "reaches_fetch env token evs1"
  shows "main env =
     (case fetch_api_data (the (DATA_URL env)) token env of
        (Inl a, evs2) \<Rightarrow> (Inl a, so_far env evs1 @ evs2)
      | (Inr api_data, evs2) \<Rightarrow>
          (case my_records_of api_data of
             Inl exc \<Rightarrow> (Inl (Uncaught exc), so_far env evs1 @ evs2 @ [Print ''   Data received.''])
           | Inr my_records \<Rightarrow>
               (Inr (),
                so_far env evs1 @ evs2 @
                [Print ''   Data received.'', Print ''3. Saving to Excel...''] @
                save_to_excel my_records ''api_data.xlsx'' env)))"
  using assms
  by (simp add: reaches_fetch_def main_def so_far_def Let_def split: prod.split sum.split)

lemma fetch_api_data_200:
  assumes "requests_post env (data_request data_url token) = Reply r"
    and "status_code r = 200" and "resp_json r = Inr value"
  shows "fetch_api_data data_url token env = (Inr value, [HttpPost (data_request data_url token)])"
  using assms by (simp add: fetch_api_data_def Let_def)

text \<open>The example surroundings.\<close>

lemma example_reaches_fetch:
  "reaches_fetch (example_env (token_reply code why) data_outcome writer) (JStr ''T'')
     [HttpPost (token_request ''my-id'' ''my-secret'' ''https://idp.example/token'')]
   \<longleftrightarrow> \<not> (400 \<le> code \<and> code < 600)"
  by (auto simp add: reaches_fetch_def example_env_def truthy_def get_bearer_token_def Let_def
      token_request_def token_reply_def json_reply_def raise_for_status_def)

lemma example_data_request:
  "requests_post (example_env auth_outcome data_outcome writer)
     (data_request (the (DATA_URL (example_env auth_outcome data_outcome writer))) token)
   = data_outcome"
  by (simp add: example_env_def data_request_def)

lemma example_fetch:
  "fetch_api_data (the (DATA_URL (example_env auth_outcome (data_reply 200 why value) writer)))
     token (example_env auth_outcome (data_reply 200 why value) writer)
   = (Inr value, [HttpPost (data_request ''https://api.example/export'' token)])"
  by (simp add: fetch_api_data_def Let_def example_env_def data_request_def data_reply_def
      json_reply_def)

text \<open>The loop over the items raises only at a \<open>record\<close> that cannot be iterated.\<close>

lemma items_loop_no_record: "''record'' \<notin> fst ` set d \<Longrightarrow> items_loop d = None"
  by (induction d rule: items_loop.induct) auto

lemma items_loop_iterable:
  "distinct (map fst d) \<Longrightarrow> map_of d ''record'' = Some v \<Longrightarrow> iterable v \<Longrightarrow> items_loop d = None"
proof (induction d rule: items_loop.induct)
  case 1
  then show ?case by simp
next
  case (2 key "value" rest)
  show ?case
  proof (cases "key = ''record''")
    case True
    with 2 have "value = v" and "''record'' \<notin> fst ` set rest" by auto
    with True 2 show ?thesis by (simp add: items_loop_no_record)
  next
    case False
    with 2 show ?thesis by simp
  qed
qed

section \<open>Missing settings\<close>

text \<open>
  C5. When at least one of the four required settings (client id, client secret, auth
  URL, data URL) is absent or empty, the process prints the error line and exits with
  status 1, and no request has been sent: neither the auth POST nor the data POST.
\<close>

theorem main_missing_setting:
  assumes "v \<in> {CLIENT_ID env, CLIENT_SECRET env, AUTH_URL env, DATA_URL env}"
    and "v = None \<or> v = Some []"
  shows "main env = (Inl (SysExit 1),
           [Print ''Error: Missing environment variables. Please check your .env file.''])
         \<and> exit_status (fst (main env)) = 1
         \<and> posts (snd (main env)) = []"
proof -
  from assms have "\<not> (truthy (CLIENT_ID env) \<and> truthy (CLIENT_SECRET env) \<and>
                      truthy (AUTH_URL env) \<and> truthy (DATA_URL env))"
    by (auto simp: truthy_def split: option.splits)
  then show ?thesis by (simp add: main_def)
qed

theorem main_missing_setting_witness:
  "exit_status (fst (main ((example_env (token_reply 200 ''OK'') (data_reply 200 ''OK'' two_records) writes_ok)
      \<lparr>CLIENT_SECRET := Some []\<rparr>))) = 1
   \<and> posts (snd (main ((example_env (token_reply 200 ''OK'') (data_reply 200 ''OK'' two_records) writes_ok)
      \<lparr>CLIENT_SECRET := Some []\<rparr>))) = []"
  using main_missing_setting [of "Some []"
      "(example_env (token_reply 200 ''OK'') (data_reply 200 ''OK'' two_records) writes_ok)\<lparr>CLIENT_SECRET := Some []\<rparr>"]
  by (simp add: example_env_def)

section \<open>The token\<close>




section \<open>The normaliser\<close>

text \<open>
  C8. Whenever the resolved record list is empty, \<open>save_to_excel\<close> prints the notice
  that there are no records and returns without writing a file; no exception is
  raised, so the handler's error line is not printed.
\<close>

theorem save_to_excel_no_records:
  assumes "records_of data = []"
  shows "save_to_excel_try data filename env = (Inr (), [Print ''No records found to save.''])
         \<and> save_to_excel data filename env = [Print ''No records found to save.'']
         \<and> files_written (save_to_excel data filename env) = []"
  using assms by (simp add: save_to_excel_def save_to_excel_try_def)

theorem save_to_excel_no_records_witness:
  "records_of (JObj [(''results'', JArr [])]) = []
   \<and> save_to_excel (JObj [(''results'', JArr [])]) ''api_data.xlsx''
        (example_env (token_reply 200 ''OK'') (data_reply 200 ''OK'' two_records) writes_ok)
      = [Print ''No records found to save.'']"
  using save_to_excel_no_records [of "JObj [(''results'', JArr [])]" "''api_data.xlsx''"
      "example_env (token_reply 200 ''OK'') (data_reply 200 ''OK'' two_records) writes_ok"]
  by (simp add: list_under_def)

section \<open>The fixed key of the orchestrator\<close>

text \<open>
  C10. When the fetched reply is a JSON object without the top-level key \<open>record\<close>,
  the subscript of line 168 raises a \<open>KeyError\<close> that nobody catches: the process ends
  with status 1 after the line that the data was received, \<open>save_to_excel\<close> is never
  called, and no file is written.
\<close>

theorem main_record_missing:
  assumes "reaches_fetch env token evs1"
    and "fetch_api_data (the (DATA_URL env)) token env = (Inr (JObj d), evs2)"
    and "''record'' \<notin> fst ` set d"
  shows "fst (main env) = Inl (Uncaught (KeyError ''record''))
         \<and> snd (main env) = so_far env evs1 @ evs2 @ [Print ''   Data received.'']
         \<and> exit_status (fst (main env)) = 1
         \<and> files_written (snd (main env)) = []"
proof -
  from assms(3) have "items_loop d = None" by (rule items_loop_no_record)
  moreover from assms(3) have "map_of d ''record'' = None" by (simp add: map_of_eq_None_iff)
  ultimately have "my_records_of (JObj d) = Inl (KeyError ''record'')" by simp
  with assms(2) have m: "main env = (Inl (Uncaught (KeyError ''record'')),
                     so_far env evs1 @ evs2 @ [Print ''   Data received.''])"
    by (simp add: main_after_token [OF assms(1)])
  from assms(2) have "files_written evs2 = []"
    using files_written_fetch_api_data [of "the (DATA_URL env)" token env] by simp
  with m reaches_fetch_no_files [OF assms(1)] show ?thesis
    by (simp add: files_written_append files_written_so_far)
qed

theorem main_record_missing_witness:
  "fst (main (example_env (token_reply 200 ''OK'')
          (data_reply 200 ''OK'' (JObj [(''items'', JArr [JObj [(''x'', JInt 1)]])])) writes_ok))
     = Inl (Uncaught (KeyError ''record''))
   \<and> exit_status (fst (main (example_env (token_reply 200 ''OK'')
          (data_reply 200 ''OK'' (JObj [(''items'', JArr [JObj [(''x'', JInt 1)]])])) writes_ok))) = 1
   \<and> files_written (snd (main (example_env (token_reply 200 ''OK'')
          (data_reply 200 ''OK'' (JObj [(''items'', JArr [JObj [(''x'', JInt 1)]])])) writes_ok))) = []"
proof -
  let ?env = "example_env (token_reply 200 ''OK'')
          (data_reply 200 ''OK'' (JObj [(''items'', JArr [JObj [(''x'', JInt 1)]])])) writes_ok"
  have r: "reaches_fetch ?env (JStr ''T'')
             [HttpPost (token_request ''my-id'' ''my-secret'' ''https://idp.example/token'')]"
    by (simp add: example_reaches_fetch)
  have f: "fetch_api_data (the (DATA_URL ?env)) (JStr ''T'') ?env =
             (Inr (JObj [(''items'', JArr [JObj [(''x'', JInt 1)]])]),
              [HttpPost (data_request ''https://api.example/export'' (JStr ''T''))])"
    by (rule example_fetch)
  have k: "''record'' \<notin> fst ` set [(''items'', JArr [JObj [(''x'', JInt 1)]])]"
    by simp
  from main_record_missing [OF r f k] show ?thesis by blast
qed

text \<open>
  C1, as amended. When the fetched reply (status 200) is an object with one key whose
  value is the empty list, no file is written. For the key \<open>results\<close>, and any key but
  \<open>record\<close>, the process ends with status 1 on the uncaught \<open>KeyError\<close>; the reply for
  which it ends with status 0 is \<^verbatim>\<open>{"record":[]}\<close>.
\<close>

theorem main_empty_list_reply:
  assumes "reaches_fetch env token evs1"
    and "requests_post env (data_request (the (DATA_URL env)) token) = Reply r"
    and "status_code r = 200"
    and "resp_json r = Inr (JObj [(key, JArr [])])"
  shows "files_written (snd (main env)) = []
         \<and> fst (main env) = (if key = ''record'' then Inr () else Inl (Uncaught (KeyError ''record'')))
         \<and> exit_status (fst (main env)) = (if key = ''record'' then 0 else 1)"
proof -
  have f: "fetch_api_data (the (DATA_URL env)) token env =
             (Inr (JObj [(key, JArr [])]), [HttpPost (data_request (the (DATA_URL env)) token)])"
    using assms(2-4) by (rule fetch_api_data_200)
  show ?thesis
    using reaches_fetch_no_files [OF assms(1)]
    by (simp add: main_after_token [OF assms(1)] f files_written_append files_written_so_far
        save_to_excel_def save_to_excel_try_def)
qed

theorem main_empty_list_reply_witness:
  "exit_status (fst (main (example_env (token_reply 200 ''OK'')
       (data_reply 200 ''OK'' (JObj [(''results'', JArr [])])) writes_ok))) = 1
   \<and> files_written (snd (main (example_env (token_reply 200 ''OK'')
       (data_reply 200 ''OK'' (JObj [(''results'', JArr [])])) writes_ok))) = []
   \<and> exit_status (fst (main (example_env (token_reply 200 ''OK'')
       (data_reply 200 ''OK'' (JObj [(''record'', JArr [])])) writes_ok))) = 0
   \<and> files_written (snd (main (example_env (token_reply 200 ''OK'')
       (data_reply 200 ''OK'' (JObj [(''record'', JArr [])])) writes_ok))) = []"
proof -
  have r: "reaches_fetch
             (example_env (token_reply 200 ''OK'') (data_reply 200 ''OK'' (JObj [(key, JArr [])])) writes_ok)
             (JStr ''T'')
             [HttpPost (token_request ''my-id'' ''my-secret'' ''https://idp.example/token'')]"
    for key
    by (simp add: example_reaches_fetch)
  have p: "requests_post
             (example_env (token_reply 200 ''OK'') (data_reply 200 ''OK'' (JObj [(key, JArr [])])) writes_ok)
             (data_request
                (the (DATA_URL (example_env (token_reply 200 ''OK'')
                                  (data_reply 200 ''OK'' (JObj [(key, JArr [])])) writes_ok)))
                (JStr ''T''))
           = Reply (json_reply 200 ''OK'' ''https://api.example/export'' (JObj [(key, JArr [])]))"
    for key
    by (simp add: example_data_request data_reply_def)
  have s: "status_code (json_reply 200 ''OK'' ''https://api.example/export'' (JObj [(key, JArr [])])) = 200"
    for key
    by (simp add: json_reply_def)
  have j: "resp_json (json_reply 200 ''OK'' ''https://api.example/export'' (JObj [(key, JArr [])]))
           = Inr (JObj [(key, JArr [])])"
    for key
    by (simp add: json_reply_def)
  from main_empty_list_reply [OF r p s j, of "''results''"]
    main_empty_list_reply [OF r p s j, of "''record''"]
  show ?thesis by simp
qed

text \<open>
  C1 as stated fails: with the reply \<^verbatim>\<open>{"results":[]}\<close> and status 200 the process does
  not exit with status 0.
\<close>

theorem results_reply_exits_nonzero:
  "\<not> (files_written (snd (main (example_env (token_reply 200 ''OK'')
            (data_reply 200 ''OK'' (JObj [(''results'', JArr [])])) writes_ok))) = []
      \<and> exit_status (fst (main (example_env (token_reply 200 ''OK'')
            (data_reply 200 ''OK'' (JObj [(''results'', JArr [])])) writes_ok))) = 0)"
  by (simp add: main_def example_env_def truthy_def get_bearer_token_def fetch_api_data_def
      Let_def token_request_def data_request_def token_reply_def data_reply_def json_reply_def
      raise_for_status_def)

section \<open>Failure of the token call\<close>

text \<open>
  C6, as amended. When the token call ends in a network error or a timeout, or in a
  reply whose status is from 400 to 599 (401 for one), the process prints the line
  that starts \<open>Error obtaining token:\<close> and exits with status 1; the token request is
  the only request sent, so there is no retry and no data fetch.
\<close>

theorem main_token_call_fails:
  assumes "truthy (CLIENT_ID env)" and "truthy (CLIENT_SECRET env)"
    and "truthy (AUTH_URL env)" and "truthy (DATA_URL env)"
    and "requests_post env
           (token_request (the (CLIENT_ID env)) (the (CLIENT_SECRET env)) (the (AUTH_URL env))) = out"
    and "token_call_fails out"
  shows "exit_status (fst (main env)) = 1
         \<and> posts (snd (main env)) =
             [token_request (the (CLIENT_ID env)) (the (CLIENT_SECRET env)) (the (AUTH_URL env))]
         \<and> snd (main env) =
             [Print ''1. Authenticating...'',
              HttpPost (token_request (the (CLIENT_ID env)) (the (CLIENT_SECRET env)) (the (AUTH_URL env))),
              Print (''Error obtaining token: '' @
                     (case out of RequestException e \<Rightarrow> e | Reply r \<Rightarrow> the (raise_for_status r)))]"
proof (cases out)
  case (RequestException e)
  with assms(1-5) show ?thesis
    by (simp add: main_def get_bearer_token_def Let_def)
next
  case (Reply r)
  with assms(6) have "raise_for_status r \<noteq> None"
    by (auto simp: token_call_fails_def raise_for_status_def)
  then obtain msg where "raise_for_status r = Some msg" by blast
  with Reply assms(1-5) show ?thesis
    by (simp add: main_def get_bearer_token_def Let_def)
qed

theorem main_token_call_fails_witness:
  "exit_status (fst (main (example_env (token_reply 401 ''Unauthorized'') (data_reply 200 ''OK'' two_records) writes_ok))) = 1
   \<and> posts (snd (main (example_env (token_reply 401 ''Unauthorized'') (data_reply 200 ''OK'' two_records) writes_ok)))
      = [token_request ''my-id'' ''my-secret'' ''https://idp.example/token'']"
proof -
  let ?env = "example_env (token_reply 401 ''Unauthorized'') (data_reply 200 ''OK'' two_records) writes_ok"
  have c: "truthy (CLIENT_ID ?env)" "truthy (CLIENT_SECRET ?env)"
          "truthy (AUTH_URL ?env)" "truthy (DATA_URL ?env)"
    by (simp_all add: example_env_def truthy_def)
  have p: "requests_post ?env
             (token_request (the (CLIENT_ID ?env)) (the (CLIENT_SECRET ?env)) (the (AUTH_URL ?env)))
           = token_reply 401 ''Unauthorized''"
    by (simp add: example_env_def token_request_def)
  have f: "token_call_fails (token_reply 401 ''Unauthorized'')"
    by (simp add: token_call_fails_def token_reply_def json_reply_def)
  have u: "token_request (the (CLIENT_ID ?env)) (the (CLIENT_SECRET ?env)) (the (AUTH_URL ?env))
           = token_request ''my-id'' ''my-secret'' ''https://idp.example/token''"
    by (simp add: example_env_def)
  from main_token_call_fails [OF c p f] show ?thesis unfolding u by blast
qed

text \<open>
  C6 as stated fails for a status that is not 2xx and not an error for
  \<open>raise_for_status\<close>: a reply with status 300 and a JSON body is taken as a success,
  the data request is sent and the process ends with status 0.
\<close>

theorem status_300_token_is_accepted:
  "status_code (json_reply 300 ''Multiple Choices'' ''https://idp.example/token''
                  (JObj [(''access_token'', JStr ''T'')])) = 300
   \<and> exit_status (fst (main (example_env (token_reply 300 ''Multiple Choices'')
                              (data_reply 200 ''OK'' (JObj [(''record'', JArr [])])) writes_ok))) = 0
   \<and> posts (snd (main (example_env (token_reply 300 ''Multiple Choices'')
                              (data_reply 200 ''OK'' (JObj [(''record'', JArr [])])) writes_ok)))
      = [token_request ''my-id'' ''my-secret'' ''https://idp.example/token'',
         data_request ''https://api.example/export'' (JStr ''T'')]"
  by (simp add: main_def example_env_def truthy_def get_bearer_token_def fetch_api_data_def
      Let_def token_request_def data_request_def token_reply_def data_reply_def json_reply_def
      raise_for_status_def save_to_excel_def save_to_excel_try_def)

section \<open>Failure while saving\<close>

text \<open>
  C9. Once \<open>main\<close> has the records, the process ends with status 0 whatever happens in
  \<open>save_to_excel\<close>. Every exception raised in its \<^verbatim>\<open>try\<close> block (the exceptions of the
  model are those a library raises, all of class \<open>Exception\<close>) is caught and reported
  with the line that starts \<open>Error saving to Excel:\<close>, after which \<open>main\<close> returns. In
  particular a failing write raises such an exception, and then no file is written and
  the exit status is still 0.
\<close>

theorem main_save_failure_swallowed:
  assumes "reaches_fetch env token evs1"
    and "fetch_api_data (the (DATA_URL env)) token env = (Inr api_data, evs2)"
    and "my_records_of api_data = Inr my_records"
  shows "exit_status (fst (main env)) = 0
         \<and> (\<forall>e evs. save_to_excel_try my_records ''api_data.xlsx'' env = (Inl e, evs) \<longrightarrow>
               save_to_excel my_records ''api_data.xlsx'' env =
                 evs @ [Print (''Error saving to Excel: '' @ e)]
               \<and> snd (main env) =
                 so_far env evs1 @ evs2 @
                 [Print ''   Data received.'', Print ''3. Saving to Excel...''] @
                 evs @ [Print (''Error saving to Excel: '' @ e)])
         \<and> (\<forall>df e. records_of my_records \<noteq> [] \<and>
                    DataFrame env (records_of my_records) = Inr df \<and>
                    excel_write env ''api_data.xlsx'' (sheet_of df False) = Some e \<longrightarrow>
               save_to_excel_try my_records ''api_data.xlsx'' env = (Inl e, [])
               \<and> files_written (snd (main env)) = [])"
proof -
  have m: "main env = (Inr (), so_far env evs1 @ evs2 @
             [Print ''   Data received.'', Print ''3. Saving to Excel...''] @
             save_to_excel my_records ''api_data.xlsx'' env)"
    by (simp add: main_after_token [OF assms(1)] assms(2,3))
  have f1: "files_written evs1 = []" by (rule reaches_fetch_no_files [OF assms(1)])
  have f2: "files_written evs2 = []"
    using files_written_fetch_api_data [of "the (DATA_URL env)" token env] assms(2) by simp
  show ?thesis
    by (auto simp: m f1 f2 files_written_append files_written_so_far save_to_excel_def
        save_to_excel_try_def to_excel_def Let_def)
qed

theorem main_save_failure_swallowed_witness:
  "exit_status (fst (main (example_env (token_reply 200 ''OK'') (data_reply 200 ''OK'' two_records) writes_fail))) = 0
   \<and> files_written (snd (main (example_env (token_reply 200 ''OK'') (data_reply 200 ''OK'' two_records) writes_fail))) = []
   \<and> save_to_excel (JArr [JObj [(''a'', JInt 1)], JObj [(''a'', JInt 2), (''b'', JInt 3)]]) ''api_data.xlsx''
        (example_env (token_reply 200 ''OK'') (data_reply 200 ''OK'' two_records) writes_fail)
      = [Print ''Error saving to Excel: [Errno 13] Permission denied'']"
proof -
  let ?env = "example_env (token_reply 200 ''OK'') (data_reply 200 ''OK'' two_records) writes_fail"
  let ?recs = "[JObj [(''a'', JInt 1)], JObj [(''a'', JInt 2), (''b'', JInt 3)]]"
  let ?df = "\<lparr>frame_columns = map JStr (union_keys ?recs),
              frame_rows = map (row_of (union_keys ?recs)) ?recs\<rparr>"
  have r: "reaches_fetch ?env (JStr ''T'')
             [HttpPost (token_request ''my-id'' ''my-secret'' ''https://idp.example/token'')]"
    by (simp add: example_reaches_fetch)
  have f: "fetch_api_data (the (DATA_URL ?env)) (JStr ''T'') ?env =
             (Inr two_records, [HttpPost (data_request ''https://api.example/export'' (JStr ''T''))])"
    by (rule example_fetch)
  have k: "my_records_of two_records = Inr (JArr ?recs)"
    by (simp add: two_records_def)
  have n: "records_of (JArr ?recs) \<noteq> []" by simp
  have d: "DataFrame ?env (records_of (JArr ?recs)) = Inr ?df"
    by (simp add: DataFrame_def)
  have w: "excel_write ?env ''api_data.xlsx'' (sheet_of ?df False) = Some ''[Errno 13] Permission denied''"
    by (simp add: example_env_def writes_fail_def)
  note t = main_save_failure_swallowed [OF r f k]
  from t have a: "exit_status (fst (main ?env)) = 0" by blast
  from t n d w have b: "save_to_excel_try (JArr ?recs) ''api_data.xlsx'' ?env
                         = (Inl ''[Errno 13] Permission denied'', [])"
    and c: "files_written (snd (main ?env)) = []" by blast+
  from t b have "save_to_excel (JArr ?recs) ''api_data.xlsx'' ?env
                   = [] @ [Print (''Error saving to Excel: '' @ ''[Errno 13] Permission denied'')]"
    by blast
  with a c show ?thesis by simp
qed

section \<open>The table that is written\<close>

text \<open>The columns are the keys of the records, each once, in the order of first appearance.\<close>

lemma set_first_seen: "set (first_seen seen ks) = set seen \<union> set ks"
  by (induction ks arbitrary: seen) auto

lemma distinct_first_seen: "distinct seen \<Longrightarrow> distinct (first_seen seen ks)"
  by (induction ks arbitrary: seen) auto

lemma set_union_keys: "set (union_keys records) = (\<Union>r\<in>set records. fst ` set (dict_items r))"
  by (simp add: union_keys_def set_first_seen)

lemma distinct_union_keys: "distinct (union_keys records)"
  by (simp add: union_keys_def distinct_first_seen)

lemma save_to_excel_dicts:
  assumes "records \<noteq> []" and "list_all is_dict records"
    and "excel_write env filename
           (map Val (map JStr (union_keys records)) # map (row_of (union_keys records)) records) = None"
  shows "save_to_excel (JArr records) filename env =
           [WriteFile filename
              (map Val (map JStr (union_keys records)) # map (row_of (union_keys records)) records),
            Print (''Success! Data saved to '' @ filename)]"
  using assms
  by (simp add: save_to_excel_def save_to_excel_try_def DataFrame_def to_excel_def sheet_of_def)

text \<open>
  C3. When the fetched reply (status 200) is an object whose \<open>record\<close> entry is a
  non-empty list of dicts and the write succeeds, the process ends with status 0 and
  has written the one file \<^verbatim>\<open>api_data.xlsx\<close>. Its sheet has one header row with the
  columns, which are the union of the records' keys, and then one row per record, in
  the order of the records; each row has exactly the columns' cells (there is no index
  column), the cell of a column being the record's value under that key, or blank when
  the record lacks the key. For \<^verbatim>\<open>{"record":[{"a":1},{"a":2,"b":3}]}\<close> the sheet is the
  header \<open>a, b\<close>, the row \<open>1, blank\<close> and the row \<open>2, 3\<close>.

  The cells hold the JSON values as they are: pandas' change of the cell types (a
  column with a blank cell becomes floating point) is not modelled.
\<close>

theorem main_writes_table:
  assumes "reaches_fetch env token evs1"
    and "requests_post env (data_request (the (DATA_URL env)) token) = Reply r"
    and "status_code r = 200"
    and "resp_json r = Inr (JObj d)"
    and "distinct (map fst d)"
    and "map_of d ''record'' = Some (JArr records)"
    and "records \<noteq> []"
    and "list_all is_dict records"
    and "cols = union_keys records"
    and "sheet = map Val (map JStr cols) # map (row_of cols) records"
    and "excel_write env ''api_data.xlsx'' sheet = None"
  shows "exit_status (fst (main env)) = 0
         \<and> files_written (snd (main env)) = [(''api_data.xlsx'', sheet)]
         \<and> set cols = (\<Union>r\<in>set records. fst ` set (dict_items r))
         \<and> distinct cols
         \<and> length sheet = Suc (length records)
         \<and> hd sheet = map (\<lambda>c. Val (JStr c)) cols
         \<and> (\<forall>i<length records.
               length (sheet ! Suc i) = length cols \<and>
               (\<forall>j<length cols.
                  sheet ! Suc i ! j =
                    (case map_of (dict_items (records ! i)) (cols ! j) of
                       None \<Rightarrow> Blank
                     | Some v \<Rightarrow> Val v)))
         \<and> (records = [JObj [(''a'', JInt 1)], JObj [(''a'', JInt 2), (''b'', JInt 3)]] \<longrightarrow>
              sheet = [[Val (JStr ''a''), Val (JStr ''b'')],
                       [Val (JInt 1), Blank],
                       [Val (JInt 2), Val (JInt 3)]])"
proof -
  have f: "fetch_api_data (the (DATA_URL env)) token env =
             (Inr (JObj d), [HttpPost (data_request (the (DATA_URL env)) token)])"
    using assms(2-4) by (rule fetch_api_data_200)
  have i: "items_loop d = None"
    using assms(5,6) by (rule items_loop_iterable) simp
  have s: "save_to_excel (JArr records) ''api_data.xlsx'' env =
             [WriteFile ''api_data.xlsx'' sheet, Print (''Success! Data saved to '' @ ''api_data.xlsx'')]"
    using assms(7-11) save_to_excel_dicts [of records env "''api_data.xlsx''"] by simp
  have m: "main env = (Inr (), so_far env evs1 @ [HttpPost (data_request (the (DATA_URL env)) token)] @
             [Print ''   Data received.'', Print ''3. Saving to Excel...''] @
             save_to_excel (JArr records) ''api_data.xlsx'' env)"
    by (simp add: main_after_token [OF assms(1)] f i assms(6))
  have e: "exit_status (fst (main env)) = 0" by (simp add: m)
  have w: "files_written (snd (main env)) = [(''api_data.xlsx'', sheet)]"
    using reaches_fetch_no_files [OF assms(1)]
    by (simp add: m s files_written_append files_written_so_far)
  have c: "set cols = (\<Union>r\<in>set records. fst ` set (dict_items r))" "distinct cols"
    by (simp_all add: assms(9) set_union_keys distinct_union_keys)
  have l: "length sheet = Suc (length records)" "hd sheet = map (\<lambda>c. Val (JStr c)) cols"
    by (simp_all add: assms(10))
  have g: "\<forall>i<length records.
               length (sheet ! Suc i) = length cols \<and>
               (\<forall>j<length cols.
                  sheet ! Suc i ! j =
                    (case map_of (dict_items (records ! i)) (cols ! j) of
                       None \<Rightarrow> Blank
                     | Some v \<Rightarrow> Val v))"
    by (simp add: assms(10) row_of_def)
  have x: "records = [JObj [(''a'', JInt 1)], JObj [(''a'', JInt 2), (''b'', JInt 3)]] \<longrightarrow>
              sheet = [[Val (JStr ''a''), Val (JStr ''b'')],
                       [Val (JInt 1), Blank],
                       [Val (JInt 2), Val (JInt 3)]]"
    by (simp add: assms(9,10) union_keys_def row_of_def)
  from e w c l g x show ?thesis by blast
qed

theorem main_writes_table_witness:
  "exit_status (fst (main (example_env (token_reply 200 ''OK'') (data_reply 200 ''OK'' two_records) writes_ok))) = 0
   \<and> files_written (snd (main (example_env (token_reply 200 ''OK'') (data_reply 200 ''OK'' two_records) writes_ok)))
      = [(''api_data.xlsx'',
          [[Val (JStr ''a''), Val (JStr ''b'')],
           [Val (JInt 1), Blank],
           [Val (JInt 2), Val (JInt 3)]])]"
proof -
  let ?env = "example_env (token_reply 200 ''OK'') (data_reply 200 ''OK'' two_records) writes_ok"
  let ?r = "json_reply 200 ''OK'' ''https://api.example/export'' two_records"
  let ?recs = "[JObj [(''a'', JInt 1)], JObj [(''a'', JInt 2), (''b'', JInt 3)]]"
  let ?sheet = "map Val (map JStr (union_keys ?recs)) # map (row_of (union_keys ?recs)) ?recs"
  have r: "reaches_fetch ?env (JStr ''T'')
             [HttpPost (token_request ''my-id'' ''my-secret'' ''https://idp.example/token'')]"
    by (simp add: example_reaches_fetch)
  have p: "requests_post ?env (data_request (the (DATA_URL ?env)) (JStr ''T'')) = Reply ?r"
    by (simp add: example_data_request data_reply_def)
  have s: "status_code ?r = 200" by (simp add: json_reply_def)
  have j: "resp_json ?r = Inr (JObj [(''record'', JArr ?recs)])"
    by (simp add: json_reply_def two_records_def)
  have d: "distinct (map fst [(''record'', JArr ?recs)])" by simp
  have k: "map_of [(''record'', JArr ?recs)] ''record'' = Some (JArr ?recs)" by simp
  have n: "?recs \<noteq> []" by simp
  have a: "list_all is_dict ?recs" by simp
  have w: "excel_write ?env ''api_data.xlsx'' ?sheet = None"
    by (simp add: example_env_def writes_ok_def)
  note t = main_writes_table [OF r p s j d k n a refl refl w]
  from t have e: "exit_status (fst (main ?env)) = 0" by blast
  from t have f: "files_written (snd (main ?env)) = [(''api_data.xlsx'', ?sheet)]" by blast
  from t have x: "?sheet = [[Val (JStr ''a''), Val (JStr ''b'')],
                       [Val (JInt 1), Blank],
                       [Val (JInt 2), Val (JInt 3)]]" by blast
  from e f show ?thesis unfolding x by blast
qed

section \<open>A data reply whose status is not 200\<close>

text \<open>
  For a status from 400 to 599 \<open>fetch_api_data\<close> prints the status code, the body and
  the headers, then the error line, and the process exits with status 1.
\<close>

lemma fetch_api_data_error_status:
  assumes "requests_post env (data_request data_url token) = Reply r"
    and "400 \<le> status_code r" and "status_code r < 600"
  shows "fetch_api_data data_url token env =
           (Inl (SysExit 1),
            HttpPost (data_request data_url token) # status_report r @
            [Print (''Error fetching data: '' @ the (raise_for_status r))])"
  using assms by (auto simp: fetch_api_data_def Let_def raise_for_status_def)

text \<open>
  C4 fails on the code. A reply with status 201 and a JSON body: \<open>fetch_api_data\<close>
  prints the status code, the body and the headers as for an error, but
  \<open>raise_for_status\<close> raises nothing below 400, so the parsed body is returned, and the
  process goes on and ends with status 0.
\<close>

theorem fetch_api_data_status_201:
  "fetch_api_data ''https://api.example/export'' (JStr ''T'')
     (example_env (token_reply 200 ''OK'') (data_reply 201 ''Created'' two_records) writes_ok)
   = (Inr two_records,
      [HttpPost (data_request ''https://api.example/export'' (JStr ''T'')),
       Print ''Error: Received status code 201'',
       Print ''Response: (the JSON text)'',
       Print ''Content-Type: application/json''])
   \<and> exit_status (fst (main
       (example_env (token_reply 200 ''OK'') (data_reply 201 ''Created'' two_records) writes_ok))) = 0"
  by (simp add: main_def example_env_def truthy_def get_bearer_token_def fetch_api_data_def
      Let_def token_request_def data_request_def token_reply_def data_reply_def json_reply_def
      raise_for_status_def status_report_def string_of_nat.simps digit_def two_records_def)

section \<open>The shape resolution\<close>

text \<open>
  C2, as amended. For a value that is a list or a dict, \<open>save_to_excel\<close> resolves the
  records by the four steps of the specification, first match winning: the list
  itself; else the list under \<open>data\<close>; else the list under \<open>results\<close>; else the dict
  wrapped as a one-element list. Any other value (a str, a number, a bool, \<open>None\<close>)
  resolves to the empty list. The input \<^verbatim>\<open>{"results":[{"x":1}]}\<close> resolves to the
  one-element list \<^verbatim>\<open>[{"x":1}]\<close>.
\<close>

theorem records_of_by_policy:
  "records_of v = (if is_list v \<or> is_dict v then spec_policy v else [])
   \<and> records_of (JObj [(''results'', JArr [JObj [(''x'', JInt 1)]])]) = [JObj [(''x'', JInt 1)]]"
  by (cases v) (simp_all add: spec_policy_def list_under_def split: option.split)

theorem records_of_by_policy_witness:
  "records_of (JObj [(''data'', JArr [JInt 7]), (''results'', JArr [])]) = [JInt 7]
   \<and> records_of (JInt 5) = []"
  using records_of_by_policy [of "JObj [(''data'', JArr [JInt 7]), (''results'', JArr [])]"]
    records_of_by_policy [of "JInt 5"]
  by (simp add: spec_policy_def list_under_def)

text \<open>
  C2 as stated fails for a value that is neither a list nor a dict: the fourth step
  would wrap the str \<open>abc\<close>, the code resolves it to no records. Such a value reaches
  \<open>save_to_excel\<close> from the reply \<^verbatim>\<open>{"record":"abc"}\<close>, and the run ends with the notice
  that there are no records.
\<close>

theorem scalar_is_not_wrapped:
  "records_of (JStr ''abc'') = [] \<and> spec_policy (JStr ''abc'') = [JStr ''abc'']
   \<and> snd (main (example_env (token_reply 200 ''OK'')
                   (data_reply 200 ''OK'' (JObj [(''record'', JStr ''abc'')])) writes_ok))
     = so_far (example_env (token_reply 200 ''OK'')
                   (data_reply 200 ''OK'' (JObj [(''record'', JStr ''abc'')])) writes_ok)
         [HttpPost (token_request ''my-id'' ''my-secret'' ''https://idp.example/token'')] @
       [HttpPost (data_request ''https://api.example/export'' (JStr ''T'')),
        Print ''   Data received.'', Print ''3. Saving to Excel...'',
        Print ''No records found to save.'']"
  by (simp add: main_def example_env_def truthy_def get_bearer_token_def fetch_api_data_def
      Let_def token_request_def data_request_def token_reply_def data_reply_def json_reply_def
      raise_for_status_def spec_policy_def list_under_def so_far_def
      save_to_excel_def save_to_excel_try_def)

end
